theory Spec2Isabelle
  imports Main "HOL-Library.Word"
begin

section \<open>The tracecmd Python interface (tracecmd.py)\<close>

text \<open>
  The module wraps the C library \<open>ctracecmd\<close>. The wrapper classes (\<open>Event\<close>, \<open>Field\<close>,
  \<open>Trace\<close>) are translated from the Python source. The C functions they call are not part
  of the Python file; each of them is modelled from the specification and marked so.
  The source is Python 2: \<open>filter\<close> and \<open>range\<close> return lists, \<open>min\<close> and \<open>max\<close> of an
  empty list raise \<open>ValueError\<close>, and a \<open>str\<close> is a byte string.
\<close>

subsection \<open>Exceptions\<close>

text \<open>
  \<open>FieldError\<close> and \<open>FileFormatError\<close> are the two exception classes the module declares;
  \<open>KeyError\<close>, \<open>ValueError\<close> and \<open>IndexError\<close> are Python's own. \<open>DecodeError\<close> is the
  failure of the string decoder of the library (specification, Field Decoder).
\<close>

datatype decode_error = Truncated | InvalidText

datatype py_error =
    KeyError string
  | FieldError string
  | FileFormatError string
  | ValueError string
  | IndexError string
  | DecodeError decode_error

subsection \<open>Data model\<close>

type_synonym byte = "8 word"

datatype field_kind = FixedInt | FixedString | DynString

text \<open>
  A Field Schema: name, byte offset in the payload, byte width, signedness and kind.
  The C structure reaches the byte order of the file through the event that owns the
  field; the model keeps that flag in the field, since the wrapper passes only the field
  and the payload to the numeric reader.
\<close>

record format_field =
  ff_name :: string
  ff_offset :: nat
  ff_size :: nat
  ff_signed :: bool
  ff_kind :: field_kind
  ff_bigendian :: bool

text \<open>An Event Schema: declared name, numeric type-id and the ordered field list.\<close>

record event_format =
  ef_name :: string
  ef_id :: int
  ef_fields :: "format_field list"

text \<open>
  A Raw Record: CPU index, absolute timestamp, the embedded type-id and process id of
  the common header, and the payload bytes.
\<close>

record pevent_record =
  rec_cpu :: nat
  rec_ts :: nat
  rec_type :: int
  rec_pid :: int
  rec_data :: "byte list"

text \<open>
  The \<open>pevent\<close> object: file byte order, the Format Catalog, and the process-id to name
  table.
\<close>

record pevent =
  pe_bigendian :: bool
  pe_events :: "event_format list"
  pe_cmdlines :: "(int \<times> string) list"

subsection \<open>Library functions used by the wrapper\<close>

text \<open>Modelled from the spec: \<open>pevent_record_cpu_get\<close>, \<open>pevent_record_ts_get\<close>,
  \<open>pevent_record_data_get\<close> and \<open>event_format_name_get\<close>, the generated accessors of the
  record and schema structures.\<close>

definition pevent_record_cpu_get :: "pevent_record \<Rightarrow> nat" where
  "pevent_record_cpu_get r = rec_cpu r"

definition pevent_record_ts_get :: "pevent_record \<Rightarrow> nat" where
  "pevent_record_ts_get r = rec_ts r"

definition pevent_record_data_get :: "pevent_record \<Rightarrow> byte list" where
  "pevent_record_data_get r = rec_data r"

definition event_format_name_get :: "event_format \<Rightarrow> string" where
  "event_format_name_get f = ef_name f"

text \<open>Modelled from the spec: \<open>pevent_data_type\<close>, the type-id embedded in a record.\<close>

definition pevent_data_type :: "pevent \<Rightarrow> pevent_record \<Rightarrow> int" where
  "pevent_data_type pe r = rec_type r"

text \<open>Modelled from the spec: \<open>pevent_data_event_from_type\<close>, the catalog lookup
  \<open>by_type_id(id) -> Option<Schema>\<close> over the immutable table.\<close>

definition pevent_data_event_from_type :: "pevent \<Rightarrow> int \<Rightarrow> event_format option" where
  "pevent_data_event_from_type pe t = find (\<lambda>f. ef_id f = t) (pe_events pe)"

text \<open>Modelled from the spec: \<open>pevent_data_pid\<close>, the process id from the fixed
  well-known field of the common header.\<close>

definition pevent_data_pid :: "pevent \<Rightarrow> pevent_record \<Rightarrow> int" where
  "pevent_data_pid pe r = rec_pid r"

definition unknown_comm :: string where
  "unknown_comm = ''<...>''"

text \<open>Modelled from the spec: \<open>pevent_data_comm_from_pid\<close>, the process-id to name table;
  absent entries resolve to an "unknown" sentinel rather than failing.\<close>

definition pevent_data_comm_from_pid :: "pevent \<Rightarrow> int \<Rightarrow> string" where
  "pevent_data_comm_from_pid pe p =
     (case map_of (pe_cmdlines pe) p of None \<Rightarrow> unknown_comm | Some s \<Rightarrow> s)"

text \<open>Modelled from the spec: \<open>pevent_find_field\<close> and \<open>pevent_find_any_field\<close>, the lookup
  of a Field Schema by name within an Event Schema.\<close>

definition pevent_find_field :: "event_format \<Rightarrow> string \<Rightarrow> format_field option" where
  "pevent_find_field fmt n = find (\<lambda>f. ff_name f = n) (ef_fields fmt)"

definition pevent_find_any_field :: "event_format \<Rightarrow> string \<Rightarrow> format_field option" where
  "pevent_find_any_field fmt n = find (\<lambda>f. ff_name f = n) (ef_fields fmt)"

text \<open>Reading \<open>w\<close> bytes at offset \<open>off\<close>; nothing when the slice leaves the payload.\<close>

definition read_bytes :: "byte list \<Rightarrow> nat \<Rightarrow> nat \<Rightarrow> byte list option" where
  "read_bytes payload off w =
     (if off + w \<le> length payload then Some (take w (drop off payload)) else None)"

definition le_value :: "byte list \<Rightarrow> nat" where
  "le_value bs = foldr (\<lambda>b acc. unat b + 256 * acc) bs 0"

definition bytes_value :: "bool \<Rightarrow> byte list \<Rightarrow> nat" where
  "bytes_value bigendian bs = le_value (if bigendian then rev bs else bs)"

text \<open>Modelled from the spec: \<open>pevent_read_number_field\<close>, the Field Decoder for
  fixed-width integers of 1, 2, 4 or 8 bytes, signed or unsigned, in the byte order of
  the file. The wrapper receives a pair: a status (nonzero on failure) and the value.
  The read fails on a string-kind field and when \<open>offset + width\<close> exceeds the payload.\<close>

definition pevent_read_number_field :: "format_field \<Rightarrow> byte list \<Rightarrow> int \<times> int" where
  "pevent_read_number_field f payload =
     (if ff_kind f \<noteq> FixedInt then (- 1, 0)
      else if ff_size f \<notin> {1, 2, 4, 8} then (- 1, 0)
      else case read_bytes payload (ff_offset f) (ff_size f) of
             None \<Rightarrow> (- 1, 0)
           | Some bs \<Rightarrow>
               let u = int (bytes_value (ff_bigendian f) bs)
               in (0, if ff_signed f \<and> 2 ^ (8 * ff_size f - 1) \<le> u
                      then u - 2 ^ (8 * ff_size f) else u))"

text \<open>Modelled from the spec: \<open>py_field_get_str\<close>, the Field Decoder for strings.
  A fixed-length string is read at \<open>offset\<close> for \<open>width\<close> bytes and stops at the first
  null byte. A dynamic string is a 4-byte unsigned descriptor holding an (offset, length)
  pair relative to the record start, the offset in the low half; the slice it names is
  the text. A slice that leaves the payload fails with \<open>DecodeError Truncated\<close>. The text
  is a Python 2 byte string, so every byte sequence is a valid text.\<close>

definition py_field_get_str :: "format_field \<Rightarrow> pevent_record \<Rightarrow> py_error + byte list" where
  "py_field_get_str f r =
     (if ff_kind f = DynString then
        (case read_bytes (rec_data r) (ff_offset f) 4 of
           None \<Rightarrow> Inl (DecodeError Truncated)
         | Some d \<Rightarrow>
             let v = bytes_value (ff_bigendian f) d
             in (case read_bytes (rec_data r) (v mod 65536) (v div 65536) of
                   None \<Rightarrow> Inl (DecodeError Truncated)
                 | Some bs \<Rightarrow> Inr bs))
      else
        (case read_bytes (rec_data r) (ff_offset f) (ff_size f) of
           None \<Rightarrow> Inl (DecodeError Truncated)
         | Some bs \<Rightarrow> Inr (takeWhile (\<lambda>b. b \<noteq> 0) bs)))"

subsection \<open>class Event\<close>

text \<open>The slots of the class; \<open>_comm\<close> and \<open>_pid\<close> start as \<open>None\<close>.\<close>

record Event =
  ev_pevent :: pevent
  ev_record :: pevent_record
  ev_format :: event_format
  ev_type :: int
  ev_cpu :: nat
  ev_ts :: nat
  ev_name :: string
  ev_comm :: "string option"
  ev_pid :: "int option"

definition Event_init :: "pevent \<Rightarrow> pevent_record \<Rightarrow> event_format \<Rightarrow> int \<Rightarrow> Event" where
  "Event_init pe r fmt ty =
     \<lparr> ev_pevent = pe, ev_record = r, ev_format = fmt, ev_type = ty,
       ev_cpu = pevent_record_cpu_get r, ev_ts = pevent_record_ts_get r,
       ev_name = event_format_name_get fmt, ev_comm = None, ev_pid = None \<rparr>"

subsection \<open>class Field\<close>

record Field =
  fld_record :: pevent_record
  fld_field :: format_field

text \<open>\<open>Field.__long__\<close> (also bound to \<open>__int__\<close>).\<close>

definition Field_long :: "Field \<Rightarrow> py_error + int" where
  "Field_long self =
     (case pevent_read_number_field (fld_field self)
             (pevent_record_data_get (fld_record self)) of
        (ret, val) \<Rightarrow> if ret \<noteq> 0 then Inl (FieldError ''Not a number field'') else Inr val)"

text \<open>\<open>Field.__str__\<close>.\<close>

definition Field_str :: "Field \<Rightarrow> py_error + byte list" where
  "Field_str self = py_field_get_str (fld_field self) (fld_record self)"

subsection \<open>Methods of Event\<close>

text \<open>\<open>Event.__getitem__\<close>: the view is not changed, so the result is the only output.
  The message is \<open>"no field '%s'" % n\<close>; character \<open>0x27\<close> is the apostrophe.\<close>

definition no_field_message :: "string \<Rightarrow> string" where
  "no_field_message n = ''no field '' @ [CHR 0x27] @ n @ [CHR 0x27]"

definition Event_getitem :: "Event \<Rightarrow> string \<Rightarrow> py_error + Field" where
  "Event_getitem self n =
     (case pevent_find_field (ev_format self) n of
        None \<Rightarrow> Inl (KeyError (no_field_message n))
      | Some f \<Rightarrow> Inr \<lparr> fld_record = ev_record self, fld_field = f \<rparr>)"

text \<open>The properties \<open>pid\<close> and \<open>comm\<close> write their slot on first access: each returns
  the value and the view after the access.\<close>

definition Event_pid :: "Event \<Rightarrow> int \<times> Event" where
  "Event_pid self =
     (case ev_pid self of
        None \<Rightarrow> (let p = pevent_data_pid (ev_pevent self) (ev_record self)
                 in (p, self\<lparr>ev_pid := Some p\<rparr>))
      | Some p \<Rightarrow> (p, self))"

definition Event_comm :: "Event \<Rightarrow> string \<times> Event" where
  "Event_comm self =
     (case ev_comm self of
        None \<Rightarrow> (case Event_pid self of
                   (p, self1) \<Rightarrow>
                     (let c = pevent_data_comm_from_pid (ev_pevent self1) p
                      in (c, self1\<lparr>ev_comm := Some c\<rparr>)))
      | Some c \<Rightarrow> (c, self))"

definition num_field :: "Event \<Rightarrow> string \<Rightarrow> int option" where
  "num_field self n =
     (case pevent_find_any_field (ev_format self) n of
        None \<Rightarrow> None
      | Some f \<Rightarrow>
          (case pevent_read_number_field f (pevent_record_data_get (ev_record self)) of
             (ret, val) \<Rightarrow> if ret \<noteq> 0 then None else Some val))"

definition str_field :: "Event \<Rightarrow> string \<Rightarrow> py_error + byte list option" where
  "str_field self n =
     (case pevent_find_any_field (ev_format self) n of
        None \<Rightarrow> Inr None
      | Some f \<Rightarrow>
          (case py_field_get_str f (ev_record self) of
             Inl e \<Rightarrow> Inl e
           | Inr s \<Rightarrow> Inr (Some s)))"

subsection \<open>A caller's accesses to one view\<close>

text \<open>A caller holds one \<open>Event\<close> and uses it several times. Each access gives an
  outcome and the view after it; a sequence of accesses threads the view through.\<close>

datatype access = GetItem string | NumField string | StrField string | Pid | Comm

datatype outcome =
    Item "py_error + Field"
  | Num "int option"
  | Str "py_error + byte list option"
  | PidIs int
  | CommIs string

fun access_event :: "Event \<Rightarrow> access \<Rightarrow> outcome \<times> Event" where
  "access_event self (GetItem n) = (Item (Event_getitem self n), self)"
| "access_event self (NumField n) = (Num (num_field self n), self)"
| "access_event self (StrField n) = (Str (str_field self n), self)"
| "access_event self Pid = (case Event_pid self of (p, self1) \<Rightarrow> (PidIs p, self1))"
| "access_event self Comm = (case Event_comm self of (c, self1) \<Rightarrow> (CommIs c, self1))"

fun access_all :: "Event \<Rightarrow> access list \<Rightarrow> outcome list \<times> Event" where
  "access_all self [] = ([], self)"
| "access_all self (a # as) =
     (case access_event self a of
        (out, self1) \<Rightarrow>
          (case access_all self1 as of (outs, self2) \<Rightarrow> (out # outs, self2)))"

subsection \<open>class Trace: decoding a record\<close>

text \<open>\<open>Trace.record_to_event\<close> reads only \<open>self._pevent\<close>; a missing record is \<open>None\<close>.\<close>

definition record_to_event :: "pevent \<Rightarrow> pevent_record option \<Rightarrow> Event option" where
  "record_to_event pe record =
     (case record of
        None \<Rightarrow> None
      | Some r \<Rightarrow>
          (let ty = pevent_data_type pe r;
               fmt = pevent_data_event_from_type pe ty
           in if ty \<noteq> 0
              then (case fmt of None \<Rightarrow> None | Some f \<Rightarrow> Some (Event_init pe r f ty))
              else None))"

subsection \<open>The capture file and its handle\<close>

text \<open>Modelled from the spec: the capture file as the library sees it. Parsing is not part
  of the wrapper, so a file is given by what parsing it yields: whether the header and
  the Format Catalog parse, whether the per-CPU data layout is usable, the parsed
  \<open>pevent\<close>, and the records of each CPU in on-disk order.\<close>

record capture_file =
  cf_headers_ok :: bool
  cf_data_ok :: bool
  cf_pevent :: pevent
  cf_streams :: "pevent_record list list"

text \<open>Modelled from the spec: the Capture Handle, the open file and one cursor per CPU
  (the index of the next record of that CPU's stream).\<close>

record tracecmd_input =
  ti_file :: capture_file
  ti_cursors :: "nat list"

text \<open>Modelled from the spec: \<open>tracecmd_alloc\<close>, \<open>tracecmd_read_headers\<close> and
  \<open>tracecmd_init_data\<close> (both return nonzero on failure), \<open>tracecmd_cpus\<close> and
  \<open>tracecmd_get_pevent\<close>.\<close>

definition tracecmd_alloc :: "capture_file \<Rightarrow> tracecmd_input" where
  "tracecmd_alloc f = \<lparr> ti_file = f, ti_cursors = [] \<rparr>"

definition tracecmd_read_headers :: "tracecmd_input \<Rightarrow> int" where
  "tracecmd_read_headers h = (if cf_headers_ok (ti_file h) then 0 else - 1)"

definition tracecmd_init_data :: "tracecmd_input \<Rightarrow> int \<times> tracecmd_input" where
  "tracecmd_init_data h =
     (if cf_data_ok (ti_file h)
      then (0, h\<lparr>ti_cursors := replicate (length (cf_streams (ti_file h))) 0\<rparr>)
      else (- 1, h))"

definition tracecmd_cpus :: "tracecmd_input \<Rightarrow> nat" where
  "tracecmd_cpus h = length (cf_streams (ti_file h))"

definition tracecmd_get_pevent :: "tracecmd_input \<Rightarrow> pevent" where
  "tracecmd_get_pevent h = cf_pevent (ti_file h)"

text \<open>The records of CPU \<open>c\<close> that the cursor has not passed yet.\<close>

definition pending :: "tracecmd_input \<Rightarrow> nat \<Rightarrow> pevent_record list" where
  "pending h c =
     (if c < length (cf_streams (ti_file h)) \<and> c < length (ti_cursors h)
      then drop (ti_cursors h ! c) (cf_streams (ti_file h) ! c) else [])"

text \<open>Modelled from the spec: \<open>tracecmd_read_data\<close>, the Record Store's \<open>read_next(c)\<close>:
  the next record after the cursor, advancing the cursor; none at end-of-stream.\<close>

definition tracecmd_read_data ::
  "tracecmd_input \<Rightarrow> nat \<Rightarrow> pevent_record option \<times> tracecmd_input" where
  "tracecmd_read_data h c =
     (case pending h c of
        [] \<Rightarrow> (None, h)
      | r # _ \<Rightarrow> (Some r, h\<lparr>ti_cursors := (ti_cursors h)[c := Suc (ti_cursors h ! c)]\<rparr>))"

text \<open>Modelled from the spec: \<open>tracecmd_set_cpu_to_timestamp\<close> and
  \<open>tracecmd_set_all_cpus_to_timestamp\<close>, the Record Store's \<open>seek_to_timestamp\<close>: the
  cursor moves to the first record with timestamp at least the given value.\<close>

definition tracecmd_set_cpu_to_timestamp :: "tracecmd_input \<Rightarrow> nat \<Rightarrow> nat \<Rightarrow> tracecmd_input" where
  "tracecmd_set_cpu_to_timestamp h c ts =
     (if c < length (cf_streams (ti_file h)) \<and> c < length (ti_cursors h)
      then h\<lparr>ti_cursors := (ti_cursors h)
                 [c := length (takeWhile (\<lambda>r. rec_ts r < ts) (cf_streams (ti_file h) ! c))]\<rparr>
      else h)"

definition tracecmd_set_all_cpus_to_timestamp :: "tracecmd_input \<Rightarrow> nat \<Rightarrow> tracecmd_input" where
  "tracecmd_set_all_cpus_to_timestamp h ts =
     fold (\<lambda>c h1. tracecmd_set_cpu_to_timestamp h1 c ts) [0..<length (cf_streams (ti_file h))] h"

text \<open>Modelled from the spec: \<open>tracecmd_read_cpu_first\<close> and \<open>tracecmd_read_cpu_last\<close>, the
  Record Store's \<open>first(c)\<close> and \<open>last(c)\<close>: the earliest and the latest record of CPU
  \<open>c\<close>, without disturbing the cursor; none when the stream is empty.\<close>

definition tracecmd_read_cpu_first :: "tracecmd_input \<Rightarrow> nat \<Rightarrow> pevent_record option" where
  "tracecmd_read_cpu_first h c =
     (if c < length (cf_streams (ti_file h))
      then (case cf_streams (ti_file h) ! c of [] \<Rightarrow> None | r # _ \<Rightarrow> Some r)
      else None)"

definition tracecmd_read_cpu_last :: "tracecmd_input \<Rightarrow> nat \<Rightarrow> pevent_record option" where
  "tracecmd_read_cpu_last h c =
     (if c < length (cf_streams (ti_file h))
      then (case cf_streams (ti_file h) ! c of [] \<Rightarrow> None | r # rs \<Rightarrow> Some (last (r # rs)))
      else None)"

subsection \<open>Python built-ins\<close>

text \<open>\<open>xs[i]\<close>: a negative index counts from the end; out of range raises \<open>IndexError\<close>.\<close>

definition py_index :: "'a list \<Rightarrow> int \<Rightarrow> py_error + 'a" where
  "py_index xs i =
     (if 0 \<le> i \<and> i < int (length xs) then Inr (xs ! nat i)
      else if i < 0 \<and> - int (length xs) \<le> i then Inr (xs ! nat (int (length xs) + i))
      else Inl (IndexError ''list index out of range''))"

text \<open>\<open>min(xs)\<close> and \<open>max(xs)\<close>: \<open>ValueError\<close> on an empty list.\<close>

definition py_min :: "nat list \<Rightarrow> py_error + nat" where
  "py_min xs =
     (case xs of
        [] \<Rightarrow> Inl (ValueError ''min() arg is an empty sequence'')
      | y # ys \<Rightarrow> Inr (fold min ys y))"

definition py_max :: "nat list \<Rightarrow> py_error + nat" where
  "py_max xs =
     (case xs of
        [] \<Rightarrow> Inl (ValueError ''max() arg is an empty sequence'')
      | y # ys \<Rightarrow> Inr (fold max ys y))"

subsection \<open>class Trace\<close>

record Trace =
  tr_handle :: tracecmd_input
  tr_cpus :: nat
  tr_pevent :: pevent
  tr_start_time :: "nat list option"
  tr_end_time :: "nat list option"

text \<open>\<open>Trace.__init__\<close>, on the capture file that the file name designates. An exception
  leaves the caller without an object.\<close>

definition Trace_init :: "capture_file \<Rightarrow> py_error + Trace" where
  "Trace_init file =
     (let h = tracecmd_alloc file
      in if tracecmd_read_headers h \<noteq> 0 then Inl (FileFormatError ''Invalid headers'')
         else (case tracecmd_init_data h of
                 (ret, h1) \<Rightarrow>
                   if ret \<noteq> 0 then Inl (FileFormatError ''Failed to init data'')
                   else Inr \<lparr> tr_handle = h1, tr_cpus = tracecmd_cpus h1,
                              tr_pevent = tracecmd_get_pevent h1,
                              tr_start_time = None, tr_end_time = None \<rparr>))"

text \<open>The per-CPU values that the loops of \<open>start_time\<close> and \<open>end_time\<close> append:
  \<open>pevent_record_ts_get(rec) if rec else 0\<close>.\<close>

definition first_ts :: "tracecmd_input \<Rightarrow> nat \<Rightarrow> nat" where
  "first_ts h c =
     (case tracecmd_read_cpu_first h c of None \<Rightarrow> 0 | Some r \<Rightarrow> pevent_record_ts_get r)"

definition last_ts :: "tracecmd_input \<Rightarrow> nat \<Rightarrow> nat" where
  "last_ts h c =
     (case tracecmd_read_cpu_last h c of None \<Rightarrow> 0 | Some r \<Rightarrow> pevent_record_ts_get r)"

text \<open>The value of the local variable \<open>cpu\<close> after \<open>for cpu in range(0, self.cpus)\<close>:
  the loop assigns to the parameter, so after a loop that ran at least once it holds
  the last CPU index.\<close>

definition cpu_after_loop :: "nat \<Rightarrow> int \<Rightarrow> int" where
  "cpu_after_loop cpus cpu = (if cpus = 0 then cpu else int cpus - 1)"

text \<open>\<open>Trace.start_time\<close> and \<open>Trace.end_time\<close>: the result (or the exception) and the
  session after the access. When \<open>min\<close> or \<open>max\<close> raises, the list built so far is
  already stored in the session.\<close>

definition start_time :: "Trace \<Rightarrow> int \<Rightarrow> (py_error + nat) \<times> Trace" where
  "start_time self cpu =
     (case tr_start_time self of
        Some tbl \<Rightarrow> (py_index tbl cpu, self)
      | None \<Rightarrow>
          (let tbl = map (first_ts (tr_handle self)) [0..<tr_cpus self];
               cpu1 = cpu_after_loop (tr_cpus self) cpu
           in case py_min (filter (\<lambda>v. v > 0) tbl) of
                Inl e \<Rightarrow> (Inl e, self\<lparr>tr_start_time := Some tbl\<rparr>)
              | Inr ts \<Rightarrow> (py_index (tbl @ [ts]) cpu1,
                           self\<lparr>tr_start_time := Some (tbl @ [ts])\<rparr>)))"

definition end_time :: "Trace \<Rightarrow> int \<Rightarrow> (py_error + nat) \<times> Trace" where
  "end_time self cpu =
     (case tr_end_time self of
        Some tbl \<Rightarrow> (py_index tbl cpu, self)
      | None \<Rightarrow>
          (let tbl = map (last_ts (tr_handle self)) [0..<tr_cpus self];
               cpu1 = cpu_after_loop (tr_cpus self) cpu
           in case py_max (filter (\<lambda>v. v > 0) tbl) of
                Inl e \<Rightarrow> (Inl e, self\<lparr>tr_end_time := Some tbl\<rparr>)
              | Inr ts \<Rightarrow> (py_index (tbl @ [ts]) cpu1,
                           self\<lparr>tr_end_time := Some (tbl @ [ts])\<rparr>)))"

text \<open>\<open>Trace.read_event\<close>: the handle's cursor moves, so the session is returned too.\<close>

definition read_event :: "Trace \<Rightarrow> nat \<Rightarrow> Event option \<times> Trace" where
  "read_event self cpu =
     (case tracecmd_read_data (tr_handle self) cpu of
        (rec, h1) \<Rightarrow> (record_to_event (tr_pevent self) rec, self\<lparr>tr_handle := h1\<rparr>))"

text \<open>\<open>Trace.rewind\<close>.\<close>

definition rewind :: "Trace \<Rightarrow> int \<Rightarrow> nat \<Rightarrow> Trace" where
  "rewind self cpu start =
     (if 0 \<le> cpu \<and> cpu < int (tr_cpus self)
      then self\<lparr>tr_handle := tracecmd_set_cpu_to_timestamp (tr_handle self) (nat cpu) start\<rparr>
      else self\<lparr>tr_handle := tracecmd_set_all_cpus_to_timestamp (tr_handle self) start\<rparr>)"

text \<open>The number of records the cursor of CPU \<open>c\<close> has not passed: the bound of the
  \<open>while True\<close> loops below.\<close>

definition remaining :: "Trace \<Rightarrow> nat \<Rightarrow> nat" where
  "remaining self c = length (pending (tr_handle self) c)"

text \<open>The \<open>while True\<close> loop of \<open>Trace.events\<close> for one CPU: the events it yields, in
  the order it yields them, and the session when the loop is left.\<close>

function events_while :: "Trace \<Rightarrow> nat \<Rightarrow> int \<Rightarrow> Event list \<times> Trace" where
  "events_while self cpu end_t =
     (case read_event self cpu of
        (None, self1) \<Rightarrow> ([], self1)
      | (Some event, self1) \<Rightarrow>
          if end_t > 0 \<and> int (ev_ts event) > end_t then ([], self1)
          else (case events_while self1 cpu end_t of
                  (rest, self2) \<Rightarrow> (event # rest, self2)))"
  by pat_completeness auto

termination events_while
proof (relation "measure (\<lambda>(self, cpu, end_t). remaining self cpu)", goal_cases)
  case 1
  show ?case by simp
next
  case (2 self cpu end_t res self1 event)
  then have ev: "read_event self cpu = (Some event, self1)" by simp
  obtain x h1 where rd: "tracecmd_read_data (tr_handle self) cpu = (x, h1)"
    by (cases "tracecmd_read_data (tr_handle self) cpu")
  with ev have dec: "record_to_event (tr_pevent self) x = Some event"
    and s1: "self1 = self\<lparr>tr_handle := h1\<rparr>"
    by (simp_all add: read_event_def)
  from dec obtain r where "x = Some r"
    by (cases x) (simp_all add: record_to_event_def)
  have shorter: "length xs - Suc n < length xs - n" if "drop n xs = y # ys"
    for xs ys :: "pevent_record list" and n y
  proof -
    from that have "length (drop n xs) = Suc (length ys)" by simp
    then show ?thesis by simp
  qed
  from rd \<open>x = Some r\<close>
  have "length (pending h1 cpu) < length (pending (tr_handle self) cpu)"
    by (auto simp: tracecmd_read_data_def pending_def split: list.splits if_splits
          dest: shorter)
  with s1 show ?case by (simp add: remaining_def)
qed

text \<open>The \<open>while True\<close> loop of \<open>Trace.records\<close> for one CPU.\<close>

function records_while :: "Trace \<Rightarrow> nat \<Rightarrow> int \<Rightarrow> pevent_record list \<times> Trace" where
  "records_while self cpu end_t =
     (case tracecmd_read_data (tr_handle self) cpu of
        (None, h1) \<Rightarrow> ([], self\<lparr>tr_handle := h1\<rparr>)
      | (Some record, h1) \<Rightarrow>
          if end_t > 0 \<and> int (pevent_record_ts_get record) > end_t
          then ([], self\<lparr>tr_handle := h1\<rparr>)
          else (case records_while (self\<lparr>tr_handle := h1\<rparr>) cpu end_t of
                  (rest, self2) \<Rightarrow> (record # rest, self2)))"
  by pat_completeness auto

termination records_while
proof (relation "measure (\<lambda>(self, cpu, end_t). remaining self cpu)", goal_cases)
  case 1
  show ?case by simp
next
  case (2 self cpu end_t res h1 r)
  then have rd: "tracecmd_read_data (tr_handle self) cpu = (Some r, h1)" by simp
  have shorter: "length xs - Suc n < length xs - n" if "drop n xs = y # ys"
    for xs ys :: "pevent_record list" and n y
  proof -
    from that have "length (drop n xs) = Suc (length ys)" by simp
    then show ?thesis by simp
  qed
  from rd have "length (pending h1 cpu) < length (pending (tr_handle self) cpu)"
    by (auto simp: tracecmd_read_data_def pending_def split: list.splits if_splits
          dest: shorter)
  then show ?case by (simp add: remaining_def)
qed

text \<open>The loop equations are unfolded by hand in the proofs below.\<close>

declare events_while.simps [simp del] records_while.simps [simp del]

text \<open>\<open>Trace.events\<close> and \<open>Trace.records\<close>: the \<open>for cpu in range(0, self.cpus)\<close> loop over
  the CPU indices still to visit. The generator is read to its end; the result is the
  sequence of yielded values and the session afterwards.\<close>

fun events_for :: "Trace \<Rightarrow> int \<Rightarrow> nat \<Rightarrow> int \<Rightarrow> nat list \<Rightarrow> Event list \<times> Trace" where
  "events_for self target_cpu start end_t [] = ([], self)"
| "events_for self target_cpu start end_t (cpu # cpus) =
     (if target_cpu = int cpu \<or> target_cpu = - 1
      then (case events_while (rewind self (int cpu) start) cpu end_t of
              (evs, self1) \<Rightarrow>
                (case events_for self1 target_cpu start end_t cpus of
                   (rest, self2) \<Rightarrow> (evs @ rest, self2)))
      else events_for self target_cpu start end_t cpus)"

definition events :: "Trace \<Rightarrow> int \<Rightarrow> nat \<Rightarrow> int \<Rightarrow> Event list \<times> Trace" where
  "events self cpu start end_t = events_for self cpu start end_t [0..<tr_cpus self]"

fun records_for ::
  "Trace \<Rightarrow> int \<Rightarrow> nat \<Rightarrow> int \<Rightarrow> nat list \<Rightarrow> pevent_record list \<times> Trace" where
  "records_for self target_cpu start end_t [] = ([], self)"
| "records_for self target_cpu start end_t (cpu # cpus) =
     (if target_cpu = int cpu \<or> target_cpu = - 1
      then (case records_while (rewind self (int cpu) start) cpu end_t of
              (recs, self1) \<Rightarrow>
                (case records_for self1 target_cpu start end_t cpus of
                   (rest, self2) \<Rightarrow> (recs @ rest, self2)))
      else records_for self target_cpu start end_t cpus)"

definition records :: "Trace \<Rightarrow> int \<Rightarrow> nat \<Rightarrow> int \<Rightarrow> pevent_record list \<times> Trace" where
  "records self cpu start end_t = records_for self cpu start end_t [0..<tr_cpus self]"

subsection \<open>What the loops compute\<close>

text \<open>Two notions used to state what \<open>events\<close> computes; they are not part of the source.
  \<open>yielded pe end_t rs\<close> is the sequence of decoded events of the longest prefix of \<open>rs\<close>
  in which every record decodes and no timestamp exceeds a positive \<open>end_t\<close>.
  \<open>session_ok\<close> holds of a session with one stream and one cursor per CPU, as
  \<open>Trace.__init__\<close> builds it.\<close>

definition yielded :: "pevent \<Rightarrow> int \<Rightarrow> pevent_record list \<Rightarrow> Event list" where
  "yielded pe end_t rs =
     map (\<lambda>r. the (record_to_event pe (Some r)))
       (takeWhile (\<lambda>r. record_to_event pe (Some r) \<noteq> None
                        \<and> \<not> (0 < end_t \<and> end_t < int (rec_ts r))) rs)"

definition session_ok :: "Trace \<Rightarrow> bool" where
  "session_ok self \<longleftrightarrow>
     length (cf_streams (ti_file (tr_handle self))) = tr_cpus self
     \<and> length (ti_cursors (tr_handle self)) = tr_cpus self"

subsection \<open>A sample capture\<close>

text \<open>One event type, \<open>sched_switch\<close> with type-id 1: a signed 4-byte integer, an 8-byte
  fixed string and a dynamic string. The payload holds 42, "bash" and "hi".\<close>

definition ex_fields :: "format_field list" where
  "ex_fields =
     [\<lparr> ff_name = ''prev_pid'', ff_offset = 0, ff_size = 4, ff_signed = True,
        ff_kind = FixedInt, ff_bigendian = False \<rparr>,
      \<lparr> ff_name = ''prev_comm'', ff_offset = 4, ff_size = 8, ff_signed = False,
        ff_kind = FixedString, ff_bigendian = False \<rparr>,
      \<lparr> ff_name = ''msg'', ff_offset = 12, ff_size = 4, ff_signed = False,
        ff_kind = DynString, ff_bigendian = False \<rparr>]"

definition ex_format :: event_format where
  "ex_format = \<lparr> ef_name = ''sched_switch'', ef_id = 1, ef_fields = ex_fields \<rparr>"

definition ex_pevent :: pevent where
  "ex_pevent = \<lparr> pe_bigendian = False, pe_events = [ex_format],
                 pe_cmdlines = [(7, ''bash'')] \<rparr>"

definition ex_payload :: "byte list" where
  "ex_payload = [42, 0, 0, 0, 98, 97, 115, 104, 0, 0, 0, 0, 16, 0, 2, 0, 104, 105]"

text \<open>The same payload with a descriptor that names 9 bytes at offset 16, beyond the
  end of the 18-byte payload.\<close>

definition ex_payload_short :: "byte list" where
  "ex_payload_short = [42, 0, 0, 0, 98, 97, 115, 104, 0, 0, 0, 0, 16, 0, 9, 0, 104, 105]"

definition ex_rec :: "nat \<Rightarrow> nat \<Rightarrow> int \<Rightarrow> pevent_record" where
  "ex_rec c t ty = \<lparr> rec_cpu = c, rec_ts = t, rec_type = ty, rec_pid = 7,
                     rec_data = ex_payload \<rparr>"

definition ex_file :: "pevent_record list list \<Rightarrow> capture_file" where
  "ex_file ss = \<lparr> cf_headers_ok = True, cf_data_ok = True, cf_pevent = ex_pevent,
                  cf_streams = ss \<rparr>"

text \<open>The session that opening \<open>ex_file ss\<close> gives.\<close>

definition ex_trace :: "pevent_record list list \<Rightarrow> Trace" where
  "ex_trace ss =
     \<lparr> tr_handle = \<lparr> ti_file = ex_file ss, ti_cursors = replicate (length ss) 0 \<rparr>,
       tr_cpus = length ss, tr_pevent = ex_pevent,
       tr_start_time = None, tr_end_time = None \<rparr>"

text \<open>The scenario of the specification: CPU 0 has records at 100, 200 and 300, CPU 1 at
  150 and 250.\<close>

definition ex_two_cpus :: "pevent_record list list" where
  "ex_two_cpus = [[ex_rec 0 100 1, ex_rec 0 200 1, ex_rec 0 300 1],
                  [ex_rec 1 150 1, ex_rec 1 250 1]]"

text \<open>One CPU whose second record has type-id 99, which the catalog does not know.\<close>

definition ex_unknown_type :: "pevent_record list list" where
  "ex_unknown_type = [[ex_rec 0 100 1, ex_rec 0 200 99, ex_rec 0 300 1]]"

text \<open>One CPU whose first record has timestamp 0 and whose last has 300.\<close>

definition ex_from_zero :: "pevent_record list list" where
  "ex_from_zero = [[ex_rec 0 0 1, ex_rec 0 300 1]]"

definition ex_event :: Event where
  "ex_event = Event_init ex_pevent (ex_rec 0 100 1) ex_format 1"

definition ex_event_short :: Event where
  "ex_event_short =
     Event_init ex_pevent ((ex_rec 0 100 1)\<lparr>rec_data := ex_payload_short\<rparr>) ex_format 1"

text \<open>The \<open>Field\<close> of the fixed string \<open>prev_comm\<close> in the sample record.\<close>

definition ex_comm_field :: Field where
  "ex_comm_field =
     \<lparr> fld_record = ex_rec 0 100 1,
       fld_field = \<lparr> ff_name = ''prev_comm'', ff_offset = 4, ff_size = 8, ff_signed = False,
                     ff_kind = FixedString, ff_bigendian = False \<rparr> \<rparr>"

text \<open>A file whose header or catalog does not parse.\<close>

definition ex_bad_file :: capture_file where
  "ex_bad_file = (ex_file ex_two_cpus)\<lparr>cf_headers_ok := False\<rparr>"

text \<open>A file whose header parses and whose per-CPU data cannot be set up.\<close>

definition ex_bad_data_file :: capture_file where
  "ex_bad_data_file = (ex_file ex_two_cpus)\<lparr>cf_data_ok := False\<rparr>"

section \<open>Properties\<close>

subsection \<open>Facts about the built-ins\<close>

lemma py_min_eq:
  "py_min xs = (if xs = [] then Inl (ValueError ''min() arg is an empty sequence'')
                else Inr (Min (set xs)))"
  by (cases xs) (simp_all add: py_min_def flip: Min.set_eq_fold)

lemma py_max_eq:
  "py_max xs = (if xs = [] then Inl (ValueError ''max() arg is an empty sequence'')
                else Inr (Max (set xs)))"
  by (cases xs) (simp_all add: py_max_def flip: Max.set_eq_fold)

lemma py_index_extra_slot: "py_index (xs @ [x]) (- 1) = Inr x"
  by (simp add: py_index_def)

lemma py_index_cpu_slot: "c < length xs \<Longrightarrow> py_index (xs @ [x]) (int c) = Inr (xs ! c)"
  by (simp add: py_index_def nth_append)

lemma Max_nonzero_eq:
  fixes tbl :: "nat list"
  assumes "\<exists>v \<in> set tbl. 0 < v"
  shows "Max (set (filter (\<lambda>v. 0 < v) tbl)) = Max (set tbl)"
proof -
  from assms obtain v where v: "v \<in> set tbl" "0 < v" by blast
  then have ne: "set tbl \<noteq> {}" by auto
  have "v \<le> Max (set tbl)" using v by simp
  with v(2) have pos: "0 < Max (set tbl)" by (rule less_le_trans)
  have "Max (set tbl) \<in> set tbl" by (rule Max_in) (use ne in simp_all)
  with pos have a: "Max (set tbl) \<in> set (filter (\<lambda>v. 0 < v) tbl)" by simp
  then have le1: "Max (set tbl) \<le> Max (set (filter (\<lambda>v. 0 < v) tbl))" by (simp del: set_filter)
  have "Max (set (filter (\<lambda>v. 0 < v) tbl)) \<le> Max (set tbl)"
    by (rule Max_mono) (use a in auto)
  with le1 show ?thesis by simp
qed

lemma zero_table_filter:
  "\<forall>c < n. f c = (0::nat) \<Longrightarrow> filter (\<lambda>v. 0 < v) (map f [0..<n]) = []"
  by (simp add: filter_empty_conv)

subsection \<open>Decoding records\<close>

text \<open>
  C6. A record whose embedded type-id has no schema in the Format Catalog is decoded to
  \<open>None\<close> (the result type has no error), and a record with a matching schema and a
  nonzero type-id is decoded to an Event bound to that record and that schema.
\<close>

theorem record_to_event_result:
  "(pevent_data_event_from_type pe (pevent_data_type pe r) = None
      \<longrightarrow> record_to_event pe (Some r) = None)
   \<and> (pevent_data_type pe r \<noteq> 0
      \<and> pevent_data_event_from_type pe (pevent_data_type pe r) = Some fmt
      \<longrightarrow> (\<exists>ev. record_to_event pe (Some r) = Some ev
             \<and> ev_record ev = r \<and> ev_format ev = fmt
             \<and> ev_type ev = pevent_data_type pe r \<and> ev_pevent ev = pe))"
  by (simp add: record_to_event_def Event_init_def Let_def)

theorem record_to_event_result_witness:
  "pevent_data_event_from_type ex_pevent (pevent_data_type ex_pevent (ex_rec 0 200 99)) = None
   \<and> record_to_event ex_pevent (Some (ex_rec 0 200 99)) = None
   \<and> pevent_data_type ex_pevent (ex_rec 0 100 1) \<noteq> 0
   \<and> pevent_data_event_from_type ex_pevent (pevent_data_type ex_pevent (ex_rec 0 100 1))
       = Some ex_format
   \<and> (\<exists>ev. record_to_event ex_pevent (Some (ex_rec 0 100 1)) = Some ev
          \<and> ev_record ev = ex_rec 0 100 1 \<and> ev_format ev = ex_format
          \<and> ev_type ev = pevent_data_type ex_pevent (ex_rec 0 100 1)
          \<and> ev_pevent ev = ex_pevent)"
proof -
  have unknown: "pevent_data_event_from_type ex_pevent
                   (pevent_data_type ex_pevent (ex_rec 0 200 99)) = None"
    by (simp add: pevent_data_event_from_type_def pevent_data_type_def ex_pevent_def
          ex_rec_def ex_format_def)
  have nonzero: "pevent_data_type ex_pevent (ex_rec 0 100 1) \<noteq> 0"
    by (simp add: pevent_data_type_def ex_rec_def)
  have known: "pevent_data_event_from_type ex_pevent
                 (pevent_data_type ex_pevent (ex_rec 0 100 1)) = Some ex_format"
    by (simp add: pevent_data_event_from_type_def pevent_data_type_def ex_pevent_def
          ex_rec_def ex_format_def)
  from record_to_event_result [of ex_pevent "ex_rec 0 200 99"] unknown
  have none: "record_to_event ex_pevent (Some (ex_rec 0 200 99)) = None"
    by blast
  from record_to_event_result [of ex_pevent "ex_rec 0 100 1" ex_format] nonzero known
  have some: "\<exists>ev. record_to_event ex_pevent (Some (ex_rec 0 100 1)) = Some ev
          \<and> ev_record ev = ex_rec 0 100 1 \<and> ev_format ev = ex_format
          \<and> ev_type ev = pevent_data_type ex_pevent (ex_rec 0 100 1)
          \<and> ev_pevent ev = ex_pevent"
    by blast
  from unknown none nonzero known some show ?thesis by blast
qed

subsection \<open>Session-wide timestamps\<close>

text \<open>
  C9. If every CPU stream of the capture is empty (every first and last record lookup
  returns no record, so every per-CPU value is 0), the first access to \<open>start_time\<close>
  and to \<open>end_time\<close> raises \<open>ValueError\<close>: \<open>min\<close> and \<open>max\<close> are applied to an empty
  filtered list. No value, in particular not 0, is returned. The witness shows a capture
  that reaches the error branch.
\<close>

theorem all_streams_empty_raises:
  assumes "tr_start_time self = None" and "tr_end_time self = None"
    and "\<forall>c < tr_cpus self. tracecmd_read_cpu_first (tr_handle self) c = None"
    and "\<forall>c < tr_cpus self. tracecmd_read_cpu_last (tr_handle self) c = None"
  shows "fst (start_time self cpu) = Inl (ValueError ''min() arg is an empty sequence'')
       \<and> fst (end_time self cpu) = Inl (ValueError ''max() arg is an empty sequence'')"
proof -
  from assms(3) have "\<forall>c < tr_cpus self. first_ts (tr_handle self) c = 0"
    by (simp add: first_ts_def)
  then have f: "filter (\<lambda>v. 0 < v) (map (first_ts (tr_handle self)) [0..<tr_cpus self]) = []"
    by (rule zero_table_filter)
  from assms(4) have "\<forall>c < tr_cpus self. last_ts (tr_handle self) c = 0"
    by (simp add: last_ts_def)
  then have l: "filter (\<lambda>v. 0 < v) (map (last_ts (tr_handle self)) [0..<tr_cpus self]) = []"
    by (rule zero_table_filter)
  have "fst (start_time self cpu) = Inl (ValueError ''min() arg is an empty sequence'')"
    using assms(1) f by (simp add: start_time_def Let_def py_min_def)
  moreover have "fst (end_time self cpu) = Inl (ValueError ''max() arg is an empty sequence'')"
    using assms(2) l by (simp add: end_time_def Let_def py_max_def)
  ultimately show ?thesis by simp
qed

theorem all_streams_empty_raises_witness:
  "tr_start_time (ex_trace [[], []]) = None \<and> tr_end_time (ex_trace [[], []]) = None
   \<and> tr_cpus (ex_trace [[], []]) = 2
   \<and> tracecmd_read_cpu_first (tr_handle (ex_trace [[], []])) 0 = None
   \<and> tracecmd_read_cpu_first (tr_handle (ex_trace [[], []])) 1 = None
   \<and> tracecmd_read_cpu_last (tr_handle (ex_trace [[], []])) 0 = None
   \<and> tracecmd_read_cpu_last (tr_handle (ex_trace [[], []])) 1 = None
   \<and> fst (start_time (ex_trace [[], []]) (- 1))
       = Inl (ValueError ''min() arg is an empty sequence'')
   \<and> fst (end_time (ex_trace [[], []]) (- 1))
       = Inl (ValueError ''max() arg is an empty sequence'')"
proof -
  have a: "tr_start_time (ex_trace [[], []]) = None" by (simp add: ex_trace_def)
  have b: "tr_end_time (ex_trace [[], []]) = None" by (simp add: ex_trace_def)
  have n: "tr_cpus (ex_trace [[], []]) = 2" by (simp add: ex_trace_def)
  have f0: "tracecmd_read_cpu_first (tr_handle (ex_trace [[], []])) 0 = None"
    and f1: "tracecmd_read_cpu_first (tr_handle (ex_trace [[], []])) 1 = None"
    by (simp_all add: ex_trace_def ex_file_def tracecmd_read_cpu_first_def)
  have l0: "tracecmd_read_cpu_last (tr_handle (ex_trace [[], []])) 0 = None"
    and l1: "tracecmd_read_cpu_last (tr_handle (ex_trace [[], []])) 1 = None"
    by (simp_all add: ex_trace_def ex_file_def tracecmd_read_cpu_last_def)
  have c: "\<forall>c < tr_cpus (ex_trace [[], []]).
         tracecmd_read_cpu_first (tr_handle (ex_trace [[], []])) c = None"
    using f0 f1 by (simp add: n less_Suc_eq numeral_2_eq_2)
  have d: "\<forall>c < tr_cpus (ex_trace [[], []]).
         tracecmd_read_cpu_last (tr_handle (ex_trace [[], []])) c = None"
    using l0 l1 by (simp add: n less_Suc_eq numeral_2_eq_2)
  from all_streams_empty_raises [OF a b c d, of "- 1"] a b n f0 f1 l0 l1
  show ?thesis by blast
qed

text \<open>
  C3. The two properties evaluated on the scenario of the specification (CPU 0 at 100,
  200, 300; CPU 1 at 150, 250). The first access returns the value of the last CPU (150
  and 250): the loop over the CPUs has assigned to \<open>cpu\<close>. Every later access returns the
  session-wide value (100 and 300). The first and the second access differ.
\<close>

theorem first_access_not_repeated:
  "fst (start_time (ex_trace ex_two_cpus) (- 1)) = Inr 150
   \<and> fst (start_time (snd (start_time (ex_trace ex_two_cpus) (- 1))) (- 1)) = Inr 100
   \<and> fst (end_time (ex_trace ex_two_cpus) (- 1)) = Inr 250
   \<and> fst (end_time (snd (end_time (ex_trace ex_two_cpus) (- 1))) (- 1)) = Inr 300"
  by code_simp

lemma start_time_first_access:
  assumes "tr_start_time self = None"
    and "filter (\<lambda>v. 0 < v) (map (first_ts (tr_handle self)) [0..<tr_cpus self]) \<noteq> []"
  shows "snd (start_time self sel) =
           self\<lparr>tr_start_time := Some (map (first_ts (tr_handle self)) [0..<tr_cpus self]
              @ [Min {v \<in> set (map (first_ts (tr_handle self)) [0..<tr_cpus self]). 0 < v}])\<rparr>"
  using assms by (simp add: start_time_def Let_def py_min_eq del: set_map set_upt)

lemma end_time_first_access:
  assumes "tr_end_time self = None"
    and "filter (\<lambda>v. 0 < v) (map (last_ts (tr_handle self)) [0..<tr_cpus self]) \<noteq> []"
  shows "snd (end_time self sel) =
           self\<lparr>tr_end_time := Some (map (last_ts (tr_handle self)) [0..<tr_cpus self]
              @ [Max {v \<in> set (map (last_ts (tr_handle self)) [0..<tr_cpus self]). 0 < v}])\<rparr>"
  using assms by (simp add: end_time_def Let_def py_max_eq del: set_map set_upt)

lemma nonzero_entry:
  "c < n \<Longrightarrow> 0 < f c \<Longrightarrow> filter (\<lambda>v. 0 < v) (map f [0..<n]) \<noteq> []"
  for f :: "nat \<Rightarrow> nat"
  by (auto simp: filter_empty_conv)

lemma start_time_cached:
  "tr_start_time s = Some tbl \<Longrightarrow> start_time s sel = (py_index tbl sel, s)"
  by (simp add: start_time_def)

lemma end_time_cached:
  "tr_end_time s = Some tbl \<Longrightarrow> end_time s sel = (py_index tbl sel, s)"
  by (simp add: end_time_def)

lemma start_time_keeps:
  "tr_handle (snd (start_time self sel)) = tr_handle self
   \<and> tr_cpus (snd (start_time self sel)) = tr_cpus self
   \<and> tr_pevent (snd (start_time self sel)) = tr_pevent self
   \<and> tr_end_time (snd (start_time self sel)) = tr_end_time self"
  by (simp add: start_time_def Let_def split: option.splits sum.splits)

lemma end_time_keeps:
  "tr_handle (snd (end_time self sel)) = tr_handle self
   \<and> tr_cpus (snd (end_time self sel)) = tr_cpus self
   \<and> tr_pevent (snd (end_time self sel)) = tr_pevent self
   \<and> tr_start_time (snd (end_time self sel)) = tr_start_time self"
  by (simp add: end_time_def Let_def split: option.splits sum.splits)

lemma start_time_table:
  assumes "tr_start_time self = None"
    and "a < tr_cpus self" and "0 < first_ts (tr_handle self) a"
  shows "tr_start_time (snd (start_time self sel))
           = Some (map (first_ts (tr_handle self)) [0..<tr_cpus self]
                   @ [Min {v \<in> set (map (first_ts (tr_handle self)) [0..<tr_cpus self]). 0 < v}])"
    and "start_time (snd (start_time self sel)) (- 1)
           = (Inr (Min {v \<in> set (map (first_ts (tr_handle self)) [0..<tr_cpus self]). 0 < v}),
              snd (start_time self sel))"
    and "c < tr_cpus self \<Longrightarrow>
         start_time (snd (start_time self sel)) (int c)
           = (Inr (first_ts (tr_handle self) c), snd (start_time self sel))"
proof -
  define firsts where "firsts = map (first_ts (tr_handle self)) [0..<tr_cpus self]"
  have nef: "filter (\<lambda>v. 0 < v) firsts \<noteq> []"
    unfolding firsts_def using assms(2,3) by (rule nonzero_entry)
  have s1: "snd (start_time self sel)
              = self\<lparr>tr_start_time := Some (firsts @ [Min {v \<in> set firsts. 0 < v}])\<rparr>"
    unfolding firsts_def using assms(1) nef [unfolded firsts_def]
    by (rule start_time_first_access)
  have cs: "tr_start_time (snd (start_time self sel))
              = Some (firsts @ [Min {v \<in> set firsts. 0 < v}])"
    by (simp only: s1) simp
  show "tr_start_time (snd (start_time self sel))
           = Some (map (first_ts (tr_handle self)) [0..<tr_cpus self]
                   @ [Min {v \<in> set (map (first_ts (tr_handle self)) [0..<tr_cpus self]). 0 < v}])"
    using cs unfolding firsts_def .
  show "start_time (snd (start_time self sel)) (- 1)
           = (Inr (Min {v \<in> set (map (first_ts (tr_handle self)) [0..<tr_cpus self]). 0 < v}),
              snd (start_time self sel))"
    unfolding firsts_def [symmetric]
    by (simp only: start_time_cached [OF cs] py_index_extra_slot)
  show "start_time (snd (start_time self sel)) (int c)
           = (Inr (first_ts (tr_handle self) c), snd (start_time self sel))"
    if c: "c < tr_cpus self"
  proof -
    have lf: "c < length firsts" using c by (simp add: firsts_def)
    have nf: "firsts ! c = first_ts (tr_handle self) c" using c by (simp add: firsts_def)
    show ?thesis
      by (simp only: start_time_cached [OF cs] py_index_cpu_slot [OF lf] nf)
  qed
qed

lemma end_time_table:
  assumes "tr_end_time self = None"
    and "b < tr_cpus self" and "0 < last_ts (tr_handle self) b"
  shows "tr_end_time (snd (end_time self sel))
           = Some (map (last_ts (tr_handle self)) [0..<tr_cpus self]
                   @ [Max (set (map (last_ts (tr_handle self)) [0..<tr_cpus self]))])"
    and "end_time (snd (end_time self sel)) (- 1)
           = (Inr (Max (set (map (last_ts (tr_handle self)) [0..<tr_cpus self]))),
              snd (end_time self sel))"
    and "c < tr_cpus self \<Longrightarrow>
         end_time (snd (end_time self sel)) (int c)
           = (Inr (last_ts (tr_handle self) c), snd (end_time self sel))"
proof -
  define lasts where "lasts = map (last_ts (tr_handle self)) [0..<tr_cpus self]"
  have nel: "filter (\<lambda>v. 0 < v) lasts \<noteq> []"
    unfolding lasts_def using assms(2,3) by (rule nonzero_entry)
  have "last_ts (tr_handle self) b \<in> set lasts"
    using assms(2) by (simp add: lasts_def)
  with assms(3) have "\<exists>v \<in> set lasts. 0 < v" by blast
  then have mx: "Max {v \<in> set lasts. 0 < v} = Max (set lasts)"
    using Max_nonzero_eq [of lasts] by simp
  have e1: "snd (end_time self sel)
              = self\<lparr>tr_end_time := Some (lasts @ [Max (set lasts)])\<rparr>"
    using end_time_first_access [OF assms(1) nel [unfolded lasts_def], of sel] mx
    by (simp only: lasts_def)
  have ce: "tr_end_time (snd (end_time self sel)) = Some (lasts @ [Max (set lasts)])"
    by (simp only: e1) simp
  show "tr_end_time (snd (end_time self sel))
           = Some (map (last_ts (tr_handle self)) [0..<tr_cpus self]
                   @ [Max (set (map (last_ts (tr_handle self)) [0..<tr_cpus self]))])"
    using ce unfolding lasts_def .
  show "end_time (snd (end_time self sel)) (- 1)
           = (Inr (Max (set (map (last_ts (tr_handle self)) [0..<tr_cpus self]))),
              snd (end_time self sel))"
    unfolding lasts_def [symmetric]
    by (simp only: end_time_cached [OF ce] py_index_extra_slot)
  show "end_time (snd (end_time self sel)) (int c)
           = (Inr (last_ts (tr_handle self) c), snd (end_time self sel))"
    if c: "c < tr_cpus self"
  proof -
    have ll: "c < length lasts" using c by (simp add: lasts_def)
    have nl: "lasts ! c = last_ts (tr_handle self) c" using c by (simp add: lasts_def)
    show ?thesis
      by (simp only: end_time_cached [OF ce] py_index_cpu_slot [OF ll] nl)
  qed
qed

text \<open>
  C2, as amended. \<open>start_time\<close> and \<open>end_time\<close> are treated each on its own. On a first
  access to \<open>start_time\<close> (the cache is empty) in a session where some CPU has a nonzero
  first timestamp, the session caches, for every CPU index below \<open>cpus\<close>, the timestamp of
  that CPU's first record (0 for an empty stream), followed by one extra slot holding the
  minimum of the nonzero per-CPU values. On every access after the first, the selector
  \<open>-1\<close> reads the extra slot, a selector \<open>c\<close> below \<open>cpus\<close> reads the cached value of CPU
  \<open>c\<close>, and the session is left as it was. The same holds of \<open>end_time\<close> with the last
  record of each CPU, under the proviso that some CPU has a nonzero last timestamp, the
  extra slot holding the maximum of the per-CPU values. Neither half depends on the
  state of the other cache. What the first access itself returns is not part of this
  statement.
\<close>

theorem start_end_time_tables:
  "(tr_start_time self = None \<and> a < tr_cpus self \<and> 0 < first_ts (tr_handle self) a
      \<longrightarrow> tr_start_time (snd (start_time self sel))
            = Some (map (first_ts (tr_handle self)) [0..<tr_cpus self]
                    @ [Min {v \<in> set (map (first_ts (tr_handle self)) [0..<tr_cpus self]).
                              0 < v}])
          \<and> start_time (snd (start_time self sel)) (- 1)
            = (Inr (Min {v \<in> set (map (first_ts (tr_handle self)) [0..<tr_cpus self]).
                             0 < v}),
               snd (start_time self sel))
          \<and> (c < tr_cpus self
               \<longrightarrow> start_time (snd (start_time self sel)) (int c)
                     = (Inr (first_ts (tr_handle self) c), snd (start_time self sel))))
   \<and> (tr_end_time self = None \<and> b < tr_cpus self \<and> 0 < last_ts (tr_handle self) b
      \<longrightarrow> tr_end_time (snd (end_time self sel))
            = Some (map (last_ts (tr_handle self)) [0..<tr_cpus self]
                    @ [Max (set (map (last_ts (tr_handle self)) [0..<tr_cpus self]))])
          \<and> end_time (snd (end_time self sel)) (- 1)
            = (Inr (Max (set (map (last_ts (tr_handle self)) [0..<tr_cpus self]))),
               snd (end_time self sel))
          \<and> (c < tr_cpus self
               \<longrightarrow> end_time (snd (end_time self sel)) (int c)
                     = (Inr (last_ts (tr_handle self) c), snd (end_time self sel))))"
proof (intro conjI impI; elim conjE)
  assume s: "tr_start_time self = None" "a < tr_cpus self" "0 < first_ts (tr_handle self) a"
  show "tr_start_time (snd (start_time self sel))
          = Some (map (first_ts (tr_handle self)) [0..<tr_cpus self]
                  @ [Min {v \<in> set (map (first_ts (tr_handle self)) [0..<tr_cpus self]).
                            0 < v}])"
    using s by (rule start_time_table(1))
  show "start_time (snd (start_time self sel)) (- 1)
          = (Inr (Min {v \<in> set (map (first_ts (tr_handle self)) [0..<tr_cpus self]).
                           0 < v}),
             snd (start_time self sel))"
    using s by (rule start_time_table(2))
  show "start_time (snd (start_time self sel)) (int c)
          = (Inr (first_ts (tr_handle self) c), snd (start_time self sel))"
    if "c < tr_cpus self"
    using s that by (rule start_time_table(3))
next
  assume e: "tr_end_time self = None" "b < tr_cpus self" "0 < last_ts (tr_handle self) b"
  show "tr_end_time (snd (end_time self sel))
          = Some (map (last_ts (tr_handle self)) [0..<tr_cpus self]
                  @ [Max (set (map (last_ts (tr_handle self)) [0..<tr_cpus self]))])"
    using e by (rule end_time_table(1))
  show "end_time (snd (end_time self sel)) (- 1)
          = (Inr (Max (set (map (last_ts (tr_handle self)) [0..<tr_cpus self]))),
             snd (end_time self sel))"
    using e by (rule end_time_table(2))
  show "end_time (snd (end_time self sel)) (int c)
          = (Inr (last_ts (tr_handle self) c), snd (end_time self sel))"
    if "c < tr_cpus self"
    using e that by (rule end_time_table(3))
qed


text \<open>
  Without the proviso the claim fails: on a capture with two empty CPU streams the first
  access to either property raises, and the list it leaves in the session has two entries
  and no extra slot.
\<close>

theorem start_end_time_tables_counterexample:
  "fst (start_time (ex_trace [[], []]) (- 1))
     = Inl (ValueError ''min() arg is an empty sequence'')
   \<and> tr_start_time (snd (start_time (ex_trace [[], []]) (- 1))) = Some [0, 0]
   \<and> fst (end_time (ex_trace [[], []]) (- 1))
     = Inl (ValueError ''max() arg is an empty sequence'')
   \<and> tr_end_time (snd (end_time (ex_trace [[], []]) (- 1))) = Some [0, 0]"
  by code_simp


text \<open>
  The witness reads \<open>start_time\<close> and then \<open>end_time\<close> in the same session on the
  scenario of the specification, and \<open>end_time\<close> on a capture whose only CPU starts at
  timestamp 0.
\<close>

theorem start_end_time_tables_witness:
  "tr_start_time (ex_trace ex_two_cpus) = None
   \<and> (0::nat) < tr_cpus (ex_trace ex_two_cpus)
   \<and> 0 < first_ts (tr_handle (ex_trace ex_two_cpus)) 0
   \<and> (1::nat) < tr_cpus (ex_trace ex_two_cpus)
   \<and> tr_start_time (snd (start_time (ex_trace ex_two_cpus) (- 1))) = Some [100, 150, 100]
   \<and> fst (start_time (snd (start_time (ex_trace ex_two_cpus) (- 1))) (- 1)) = Inr 100
   \<and> fst (start_time (snd (start_time (ex_trace ex_two_cpus) (- 1))) (int 1)) = Inr 150
   \<and> tr_end_time (snd (start_time (ex_trace ex_two_cpus) (- 1))) = None
   \<and> (0::nat) < tr_cpus (snd (start_time (ex_trace ex_two_cpus) (- 1)))
   \<and> 0 < last_ts (tr_handle (snd (start_time (ex_trace ex_two_cpus) (- 1)))) 0
   \<and> (1::nat) < tr_cpus (snd (start_time (ex_trace ex_two_cpus) (- 1)))
   \<and> tr_end_time (snd (end_time (snd (start_time (ex_trace ex_two_cpus) (- 1))) (- 1)))
       = Some [300, 250, 300]
   \<and> fst (end_time (snd (end_time (snd (start_time (ex_trace ex_two_cpus) (- 1))) (- 1)))
            (- 1)) = Inr 300
   \<and> fst (end_time (snd (end_time (snd (start_time (ex_trace ex_two_cpus) (- 1))) (- 1)))
            (int 1)) = Inr 250
   \<and> first_ts (tr_handle (ex_trace ex_from_zero)) 0 = 0
   \<and> tr_end_time (ex_trace ex_from_zero) = None
   \<and> (0::nat) < tr_cpus (ex_trace ex_from_zero)
   \<and> 0 < last_ts (tr_handle (ex_trace ex_from_zero)) 0
   \<and> tr_end_time (snd (end_time (ex_trace ex_from_zero) (- 1))) = Some [300, 300]"
proof -
  let ?T = "ex_trace ex_two_cpus"
  let ?S = "snd (start_time ?T (- 1))"
  let ?Z = "ex_trace ex_from_zero"
  have h1: "tr_start_time ?T = None" and h2: "tr_end_time ?T = None"
    by (simp_all add: ex_trace_def)
  have h3: "(0::nat) < tr_cpus ?T" and h6: "(1::nat) < tr_cpus ?T"
    by (simp_all add: ex_trace_def ex_two_cpus_def)
  have f0: "first_ts (tr_handle ?T) 0 = 100" and f1: "first_ts (tr_handle ?T) 1 = 150"
    and l0: "last_ts (tr_handle ?T) 0 = 300" and l1: "last_ts (tr_handle ?T) 1 = 250"
    by code_simp+
  have h4: "0 < first_ts (tr_handle ?T) 0" by (simp add: f0)
  have h5: "0 < last_ts (tr_handle ?T) 0" by (simp add: l0)
  have n: "[0..<tr_cpus ?T] = [0, 1]"
    by (simp add: ex_trace_def ex_two_cpus_def upt_rec)
  have tf: "map (first_ts (tr_handle ?T)) [0..<tr_cpus ?T] = [100, 150]"
    by (simp only: n list.map f0 f1)
  have tl: "map (last_ts (tr_handle ?T)) [0..<tr_cpus ?T] = [300, 250]"
    by (simp only: n list.map l0 l1)
  have "{v \<in> set [100, 150 :: nat]. 0 < v} = {100, 150}" by auto
  then have mn: "Min {v \<in> set [100, 150 :: nat]. 0 < v} = 100" by simp
  have mx: "Max (set [300, 250 :: nat]) = 300" by simp
  have kh: "tr_handle ?S = tr_handle ?T" and kc: "tr_cpus ?S = tr_cpus ?T"
    and ke: "tr_end_time ?S = tr_end_time ?T"
    using start_time_keeps [of ?T "- 1"] by simp_all
  have s2: "tr_end_time ?S = None" using ke h2 by simp
  have s3: "(0::nat) < tr_cpus ?S" and s6: "(1::nat) < tr_cpus ?S"
    using kc h3 h6 by simp_all
  have s5: "0 < last_ts (tr_handle ?S) 0" using kh h5 by simp
  have z0: "first_ts (tr_handle ?Z) 0 = 0" and zl: "last_ts (tr_handle ?Z) 0 = 300"
    by code_simp+
  have z2: "tr_end_time ?Z = None" by (simp add: ex_trace_def)
  have z3: "(0::nat) < tr_cpus ?Z" by (simp add: ex_trace_def ex_from_zero_def)
  have z5: "0 < last_ts (tr_handle ?Z) 0" by (simp add: zl)
  have zn: "[0..<tr_cpus ?Z] = [0]"
    by (simp add: ex_trace_def ex_from_zero_def)
  have tz: "map (last_ts (tr_handle ?Z)) [0..<tr_cpus ?Z] = [300]"
    by (simp only: zn list.map zl)
  note t1 = start_end_time_tables [where self = ?T and a = 0 and c = 1 and sel = "- 1",
      THEN conjunct1, unfolded tf mn]
  note t2 = start_end_time_tables [where self = ?S and b = 0 and c = 1 and sel = "- 1",
      THEN conjunct2, unfolded kh kc tl mx]
  note t3 = start_end_time_tables [where self = ?Z and b = 0 and c = 0 and sel = "- 1",
      THEN conjunct2, unfolded tz]
  from h1 h3 h4 h6 t1
  have c1: "tr_start_time ?S = Some [100, 150, 100]"
    and c2: "fst (start_time ?S (- 1)) = Inr 100"
    and c3: "fst (start_time ?S (int 1)) = Inr 150"
    using f1 by simp_all
  from s2 h3 h5 h6 t2
  have d1: "tr_end_time (snd (end_time ?S (- 1))) = Some [300, 250, 300]"
    and d2: "fst (end_time (snd (end_time ?S (- 1))) (- 1)) = Inr 300"
    and d3: "fst (end_time (snd (end_time ?S (- 1))) (int 1)) = Inr 250"
    using l1 by simp_all
  from z2 z3 z5 t3
  have e1: "tr_end_time (snd (end_time ?Z (- 1))) = Some [300, 300]"
    by simp
  from h1 h3 h4 h6 c1 c2 c3 s2 s3 s5 s6 d1 d2 d3 z0 z2 z3 z5 e1
  show ?thesis by blast
qed


subsection \<open>Field access on a view\<close>

text \<open>
  C4, as amended. For every Event View and every field name that the lookup does not find
  in the bound Event Schema, \<open>Event.__getitem__\<close> raises Python's \<open>KeyError\<close> with the
  message \<open>no field '<name>'\<close>, and the view is left as it was: any later sequence of
  accesses on the same view gives the outcomes and the final view it would have given
  without the failed lookup.
\<close>

theorem getitem_missing_field:
  assumes "pevent_find_field (ev_format self) n = None"
  shows "access_event self (GetItem n)
           = (Item (Inl (KeyError (no_field_message n))), self)
       \<and> access_all (snd (access_event self (GetItem n))) later = access_all self later"
  using assms by (simp add: Event_getitem_def)

text \<open>
  The exception is not the module's \<open>FieldError\<close>: on the sample view the lookup of
  \<open>nonexistent\<close> raises \<open>KeyError\<close>.
\<close>

theorem getitem_missing_field_counterexample:
  "pevent_find_field (ev_format ex_event) ''nonexistent'' = None
   \<and> Event_getitem ex_event ''nonexistent'' = Inl (KeyError (no_field_message ''nonexistent''))
   \<and> Event_getitem ex_event ''nonexistent'' \<noteq> Inl (FieldError (no_field_message ''nonexistent''))"
  by code_simp


theorem getitem_missing_field_witness:
  "pevent_find_field (ev_format ex_event) ''nonexistent'' = None
   \<and> access_event ex_event (GetItem ''nonexistent'')
       = (Item (Inl (KeyError (no_field_message ''nonexistent''))), ex_event)
   \<and> access_all (snd (access_event ex_event (GetItem ''nonexistent'')))
         [NumField ''prev_pid'', Comm]
       = access_all ex_event [NumField ''prev_pid'', Comm]
   \<and> fst (access_all ex_event [NumField ''prev_pid'', Comm]) = [Num (Some 42), CommIs ''bash'']"
proof -
  have h: "pevent_find_field (ev_format ex_event) ''nonexistent'' = None"
    by (simp add: pevent_find_field_def ex_event_def Event_init_def ex_format_def ex_fields_def)
  have n: "num_field ex_event ''prev_pid'' = Some 42"
    by (simp add: num_field_def pevent_find_any_field_def ex_event_def Event_init_def
          ex_format_def ex_fields_def pevent_read_number_field_def pevent_record_data_get_def
          ex_rec_def ex_payload_def read_bytes_def bytes_value_def le_value_def)
  have c: "fst (Event_comm ex_event) = ''bash''"
    by code_simp
  have v: "fst (access_all ex_event [NumField ''prev_pid'', Comm])
             = [Num (Some 42), CommIs ''bash'']"
    by (simp add: n c case_prod_beta)
  from getitem_missing_field [OF h, of "[NumField ''prev_pid'', Comm]"]
  have "access_event ex_event (GetItem ''nonexistent'')
          = (Item (Inl (KeyError (no_field_message ''nonexistent''))), ex_event)"
    and "access_all (snd (access_event ex_event (GetItem ''nonexistent'')))
           [NumField ''prev_pid'', Comm]
         = access_all ex_event [NumField ''prev_pid'', Comm]"
    by blast+
  with h v show ?thesis by blast
qed

text \<open>
  C5. Coercing a \<open>Field\<close> to an integer (\<open>__long__\<close>, \<open>__int__\<close>) raises
  \<open>FieldError("Not a number field")\<close> whenever the numeric read of the library reports a
  failure, and so in particular on every field of a string kind; no value is returned.
\<close>

theorem field_long_not_numeric:
  "(fst (pevent_read_number_field (fld_field self)
           (pevent_record_data_get (fld_record self))) \<noteq> 0
      \<longrightarrow> Field_long self = Inl (FieldError ''Not a number field''))
   \<and> (ff_kind (fld_field self) \<noteq> FixedInt
      \<longrightarrow> Field_long self = Inl (FieldError ''Not a number field''))"
  by (auto simp: Field_long_def pevent_read_number_field_def split: prod.splits)

theorem field_long_not_numeric_witness:
  "fst (pevent_read_number_field (fld_field ex_comm_field)
           (pevent_record_data_get (fld_record ex_comm_field))) \<noteq> 0
   \<and> ff_kind (fld_field ex_comm_field) \<noteq> FixedInt
   \<and> Field_long ex_comm_field = Inl (FieldError ''Not a number field'')"
proof -
  have a: "fst (pevent_read_number_field (fld_field ex_comm_field)
           (pevent_record_data_get (fld_record ex_comm_field))) \<noteq> 0"
    by (simp add: pevent_read_number_field_def ex_comm_field_def)
  have b: "ff_kind (fld_field ex_comm_field) \<noteq> FixedInt"
    by (simp add: ex_comm_field_def)
  from field_long_not_numeric [of ex_comm_field] a b show ?thesis by blast
qed

text \<open>
  C8. A new view has both slots empty. The first access to \<open>pid\<close> resolves it from the
  record (\<open>pevent_data_pid\<close>) and stores it; the first access to \<open>comm\<close> reads \<open>pid\<close>
  through the property, looks the name up in the pid table (\<open>pevent_data_comm_from_pid\<close>)
  and stores it. An access that finds its slot filled returns the slot and leaves the
  view as it is: every later access returns the value of the first, and it does so even
  when the \<open>pevent\<close> tables or the record behind the view are replaced by others, so the
  library is not consulted again.
\<close>

theorem pid_comm_cached:
  "Event_pid (snd (Event_pid self)) = (fst (Event_pid self), snd (Event_pid self))
   \<and> Event_pid ((snd (Event_pid self))\<lparr>ev_pevent := pe, ev_record := r\<rparr>)
       = (fst (Event_pid self), (snd (Event_pid self))\<lparr>ev_pevent := pe, ev_record := r\<rparr>)
   \<and> Event_comm (snd (Event_comm self)) = (fst (Event_comm self), snd (Event_comm self))
   \<and> Event_comm ((snd (Event_comm self))\<lparr>ev_pevent := pe, ev_record := r\<rparr>)
       = (fst (Event_comm self), (snd (Event_comm self))\<lparr>ev_pevent := pe, ev_record := r\<rparr>)
   \<and> ev_pid (snd (Event_pid self)) = Some (fst (Event_pid self))
   \<and> ev_comm (snd (Event_comm self)) = Some (fst (Event_comm self))
   \<and> ev_pid (Event_init pe r fmt ty) = None \<and> ev_comm (Event_init pe r fmt ty) = None
   \<and> (ev_pid self = None
      \<longrightarrow> Event_pid self
            = (pevent_data_pid (ev_pevent self) (ev_record self),
               self\<lparr>ev_pid := Some (pevent_data_pid (ev_pevent self) (ev_record self))\<rparr>))
   \<and> (ev_pid self = Some p \<longrightarrow> Event_pid self = (p, self))
   \<and> (ev_comm self = None
      \<longrightarrow> fst (Event_comm self)
            = pevent_data_comm_from_pid (ev_pevent self) (fst (Event_pid self))
          \<and> snd (Event_comm self)
            = (snd (Event_pid self))\<lparr>ev_comm := Some (fst (Event_comm self))\<rparr>)
   \<and> (ev_comm self = Some c \<longrightarrow> Event_comm self = (c, self))"
proof (cases "ev_pid self")
  case None
  then show ?thesis
    by (cases "ev_comm self")
       (simp_all add: Event_pid_def Event_comm_def Event_init_def Let_def)
next
  case (Some q)
  then show ?thesis
    by (cases "ev_comm self")
       (simp_all add: Event_pid_def Event_comm_def Event_init_def Let_def)
qed

theorem pid_comm_cached_witness:
  "ev_pid ex_event = None \<and> ev_comm ex_event = None
   \<and> pevent_data_pid (ev_pevent ex_event) (ev_record ex_event) = 7
   \<and> fst (Event_pid ex_event) = 7
   \<and> ev_pid (snd (Event_pid ex_event)) = Some 7
   \<and> Event_pid (snd (Event_pid ex_event)) = (7, snd (Event_pid ex_event))
   \<and> pevent_data_comm_from_pid (ev_pevent ex_event) 7 = ''bash''
   \<and> fst (Event_comm ex_event) = ''bash''
   \<and> ev_comm (snd (Event_comm ex_event)) = Some ''bash''
   \<and> ev_pid (snd (Event_comm ex_event)) = Some 7
   \<and> Event_comm (snd (Event_comm ex_event)) = (''bash'', snd (Event_comm ex_event))
   \<and> Event_pid (snd (Event_comm ex_event)) = (7, snd (Event_comm ex_event))"
proof -
  have n1: "ev_pid ex_event = None" and n2: "ev_comm ex_event = None"
    by (simp_all add: ex_event_def Event_init_def)
  have p: "pevent_data_pid (ev_pevent ex_event) (ev_record ex_event) = 7"
    by (simp add: pevent_data_pid_def ex_event_def Event_init_def ex_rec_def)
  have c: "pevent_data_comm_from_pid (ev_pevent ex_event) 7 = ''bash''"
    by (simp add: pevent_data_comm_from_pid_def ex_event_def Event_init_def ex_pevent_def)
  note t = pid_comm_cached [of ex_event]
  from t n1 have first_pid: "Event_pid ex_event
      = (pevent_data_pid (ev_pevent ex_event) (ev_record ex_event),
         ex_event\<lparr>ev_pid := Some (pevent_data_pid (ev_pevent ex_event) (ev_record ex_event))\<rparr>)"
    by blast
  then have a1: "fst (Event_pid ex_event) = 7" using p by simp
  from t have "ev_pid (snd (Event_pid ex_event)) = Some (fst (Event_pid ex_event))"
    by blast
  with a1 have a2: "ev_pid (snd (Event_pid ex_event)) = Some 7" by simp
  from t have "Event_pid (snd (Event_pid ex_event))
      = (fst (Event_pid ex_event), snd (Event_pid ex_event))"
    by blast
  with a1 have a3: "Event_pid (snd (Event_pid ex_event)) = (7, snd (Event_pid ex_event))"
    by simp
  from t n2 have first_comm: "fst (Event_comm ex_event)
        = pevent_data_comm_from_pid (ev_pevent ex_event) (fst (Event_pid ex_event))"
    and after: "snd (Event_comm ex_event)
        = (snd (Event_pid ex_event))\<lparr>ev_comm := Some (fst (Event_comm ex_event))\<rparr>"
    by blast+
  from first_comm a1 c have b1: "fst (Event_comm ex_event) = ''bash''" by simp
  from t have "ev_comm (snd (Event_comm ex_event)) = Some (fst (Event_comm ex_event))"
    by blast
  with b1 have b2: "ev_comm (snd (Event_comm ex_event)) = Some ''bash''" by simp
  have b3: "ev_pid (snd (Event_comm ex_event)) = Some 7"
    by (subst after) (simp add: a2)
  from t have "Event_comm (snd (Event_comm ex_event))
      = (fst (Event_comm ex_event), snd (Event_comm ex_event))"
    by blast
  with b1 have b4: "Event_comm (snd (Event_comm ex_event)) = (''bash'', snd (Event_comm ex_event))"
    by simp
  from pid_comm_cached [where self = "snd (Event_comm ex_event)" and p = 7] b3
  have b5: "Event_pid (snd (Event_comm ex_event)) = (7, snd (Event_comm ex_event))"
    by blast
  from pid_comm_cached [where self = "snd (Event_comm ex_event)" and c = "''bash''"] b2
  have b6: "Event_comm (snd (Event_comm ex_event)) = (''bash'', snd (Event_comm ex_event))"
    by blast
  from n1 n2 p a1 a2 a3 c b1 b2 b3 b4 b5 b6 show ?thesis by blast
qed

text \<open>
  C10, as amended. \<open>Event.num_field\<close> never raises (its result is a value or \<open>None\<close>), and
  \<open>Event.str_field\<close> raises nothing of its own. Both return \<open>None\<close> when the named field
  is absent from the schema. \<open>num_field\<close> also returns \<open>None\<close> when the numeric read of an
  existing field fails, so \<open>None\<close> does not tell a missing field from a failed decode,
  while the \<open>Field\<close> coercion of the same field raises \<open>FieldError\<close>. On an existing
  field \<open>str_field\<close> returns what the string decoder returns, and an error of the
  decoder is passed on to the caller.
\<close>

theorem num_str_field_results:
  "(pevent_find_any_field (ev_format self) n = None
      \<longrightarrow> num_field self n = None \<and> str_field self n = Inr None)
   \<and> (pevent_find_any_field (ev_format self) n = Some f
      \<and> fst (pevent_read_number_field f (pevent_record_data_get (ev_record self))) \<noteq> 0
      \<longrightarrow> num_field self n = None
          \<and> Field_long \<lparr> fld_record = ev_record self, fld_field = f \<rparr>
              = Inl (FieldError ''Not a number field''))
   \<and> (pevent_find_any_field (ev_format self) n = Some f
      \<longrightarrow> str_field self n = map_sum id Some (py_field_get_str f (ev_record self)))"
  by (auto simp: num_field_def str_field_def Field_long_def split: prod.splits sum.splits)

text \<open>
  \<open>str_field\<close> can raise: on the sample record whose dynamic string descriptor names a
  slice beyond the payload, the decoder fails and \<open>str_field\<close> passes the error on.
\<close>

theorem num_str_field_results_counterexample:
  "pevent_find_any_field (ev_format ex_event_short) ''msg'' = Some (ex_fields ! 2)
   \<and> str_field ex_event_short ''msg'' = Inl (DecodeError Truncated)"
  by (simp add: str_field_def pevent_find_any_field_def ex_event_short_def Event_init_def
        ex_format_def ex_fields_def py_field_get_str_def ex_rec_def ex_payload_short_def
        read_bytes_def bytes_value_def le_value_def)


theorem num_str_field_results_witness:
  "pevent_find_any_field (ev_format ex_event) ''nope'' = None
   \<and> num_field ex_event ''nope'' = None \<and> str_field ex_event ''nope'' = Inr None
   \<and> pevent_find_any_field (ev_format ex_event) ''prev_comm'' = Some (ex_fields ! 1)
   \<and> fst (pevent_read_number_field (ex_fields ! 1)
             (pevent_record_data_get (ev_record ex_event))) \<noteq> 0
   \<and> num_field ex_event ''prev_comm'' = None
   \<and> Field_long \<lparr> fld_record = ev_record ex_event, fld_field = ex_fields ! 1 \<rparr>
       = Inl (FieldError ''Not a number field'')
   \<and> str_field ex_event ''prev_comm''
       = map_sum id Some (py_field_get_str (ex_fields ! 1) (ev_record ex_event))
   \<and> py_field_get_str (ex_fields ! 1) (ev_record ex_event) = Inr [98, 97, 115, 104]"
proof -
  have absent: "pevent_find_any_field (ev_format ex_event) ''nope'' = None"
    by (simp add: pevent_find_any_field_def ex_event_def Event_init_def ex_format_def
          ex_fields_def)
  have present: "pevent_find_any_field (ev_format ex_event) ''prev_comm'' = Some (ex_fields ! 1)"
    by (simp add: pevent_find_any_field_def ex_event_def Event_init_def ex_format_def
          ex_fields_def)
  have fails: "fst (pevent_read_number_field (ex_fields ! 1)
                 (pevent_record_data_get (ev_record ex_event))) \<noteq> 0"
    by (simp add: pevent_read_number_field_def ex_fields_def)
  have decoded: "py_field_get_str (ex_fields ! 1) (ev_record ex_event) = Inr [98, 97, 115, 104]"
    by (simp add: py_field_get_str_def ex_fields_def ex_event_def Event_init_def ex_rec_def
          ex_payload_def read_bytes_def)
  from num_str_field_results [of ex_event "''nope''"] absent
  have r1: "num_field ex_event ''nope'' = None \<and> str_field ex_event ''nope'' = Inr None"
    by blast
  from num_str_field_results [of ex_event "''prev_comm''" "ex_fields ! 1"] present fails
  have r2: "num_field ex_event ''prev_comm'' = None
          \<and> Field_long \<lparr> fld_record = ev_record ex_event, fld_field = ex_fields ! 1 \<rparr>
              = Inl (FieldError ''Not a number field'')"
    and r3: "str_field ex_event ''prev_comm''
             = map_sum id Some (py_field_get_str (ex_fields ! 1) (ev_record ex_event))"
    by blast+
  from absent present fails decoded r1 r2 r3 show ?thesis by blast
qed

subsection \<open>Opening a session\<close>

text \<open>
  C7. Opening a session on a file whose header or Format Catalog does not parse raises
  \<open>FileFormatError\<close>, and so does a file whose per-CPU data cannot be set up. Construction
  has two outcomes only: \<open>FileFormatError\<close> and no session, or a session whose \<open>cpus\<close> and
  \<open>pevent\<close> are read from the initialised handle and whose timestamp caches are empty.
\<close>

theorem trace_init_result:
  "(tracecmd_read_headers (tracecmd_alloc file) \<noteq> 0
      \<longrightarrow> Trace_init file = Inl (FileFormatError ''Invalid headers''))
   \<and> (tracecmd_read_headers (tracecmd_alloc file) = 0
      \<and> fst (tracecmd_init_data (tracecmd_alloc file)) \<noteq> 0
      \<longrightarrow> Trace_init file = Inl (FileFormatError ''Failed to init data''))
   \<and> (tracecmd_read_headers (tracecmd_alloc file) = 0
      \<and> fst (tracecmd_init_data (tracecmd_alloc file)) = 0
      \<longrightarrow> (\<exists>t. Trace_init file = Inr t
             \<and> tr_handle t = snd (tracecmd_init_data (tracecmd_alloc file))
             \<and> tr_cpus t = tracecmd_cpus (tr_handle t)
             \<and> tr_pevent t = tracecmd_get_pevent (tr_handle t)
             \<and> tr_start_time t = None \<and> tr_end_time t = None))
   \<and> ((\<exists>m. Trace_init file = Inl (FileFormatError m)) \<or> (\<exists>t. Trace_init file = Inr t))"
  by (cases "tracecmd_init_data (tracecmd_alloc file)")
     (simp add: Trace_init_def Let_def)


theorem trace_init_result_witness:
  "tracecmd_read_headers (tracecmd_alloc ex_bad_file) \<noteq> 0
   \<and> Trace_init ex_bad_file = Inl (FileFormatError ''Invalid headers'')
   \<and> tracecmd_read_headers (tracecmd_alloc ex_bad_data_file) = 0
   \<and> fst (tracecmd_init_data (tracecmd_alloc ex_bad_data_file)) \<noteq> 0
   \<and> Trace_init ex_bad_data_file = Inl (FileFormatError ''Failed to init data'')
   \<and> tracecmd_read_headers (tracecmd_alloc (ex_file ex_two_cpus)) = 0
   \<and> fst (tracecmd_init_data (tracecmd_alloc (ex_file ex_two_cpus))) = 0
   \<and> (\<exists>t. Trace_init (ex_file ex_two_cpus) = Inr t
          \<and> tr_handle t = snd (tracecmd_init_data (tracecmd_alloc (ex_file ex_two_cpus)))
          \<and> tr_cpus t = tracecmd_cpus (tr_handle t)
          \<and> tr_pevent t = tracecmd_get_pevent (tr_handle t)
          \<and> tr_start_time t = None \<and> tr_end_time t = None)
   \<and> tracecmd_cpus (snd (tracecmd_init_data (tracecmd_alloc (ex_file ex_two_cpus)))) = 2"
proof -
  have b1: "tracecmd_read_headers (tracecmd_alloc ex_bad_file) \<noteq> 0"
    by (simp add: tracecmd_read_headers_def tracecmd_alloc_def ex_bad_file_def ex_file_def)
  have d1: "tracecmd_read_headers (tracecmd_alloc ex_bad_data_file) = 0"
    and d2: "fst (tracecmd_init_data (tracecmd_alloc ex_bad_data_file)) \<noteq> 0"
    by (simp_all add: tracecmd_read_headers_def tracecmd_init_data_def tracecmd_alloc_def
          ex_bad_data_file_def ex_file_def)
  have g1: "tracecmd_read_headers (tracecmd_alloc (ex_file ex_two_cpus)) = 0"
    and g2: "fst (tracecmd_init_data (tracecmd_alloc (ex_file ex_two_cpus))) = 0"
    by (simp_all add: tracecmd_read_headers_def tracecmd_init_data_def tracecmd_alloc_def
          ex_file_def)
  have n: "tracecmd_cpus (snd (tracecmd_init_data (tracecmd_alloc (ex_file ex_two_cpus)))) = 2"
    by (simp add: tracecmd_cpus_def tracecmd_init_data_def tracecmd_alloc_def ex_file_def
          ex_two_cpus_def)
  from trace_init_result [of ex_bad_file] b1
  have r1: "Trace_init ex_bad_file = Inl (FileFormatError ''Invalid headers'')"
    by blast
  from trace_init_result [of ex_bad_data_file] d1 d2
  have r2: "Trace_init ex_bad_data_file = Inl (FileFormatError ''Failed to init data'')"
    by blast
  from trace_init_result [of "ex_file ex_two_cpus"] g1 g2
  have r3: "\<exists>t. Trace_init (ex_file ex_two_cpus) = Inr t
          \<and> tr_handle t = snd (tracecmd_init_data (tracecmd_alloc (ex_file ex_two_cpus)))
          \<and> tr_cpus t = tracecmd_cpus (tr_handle t)
          \<and> tr_pevent t = tracecmd_get_pevent (tr_handle t)
          \<and> tr_start_time t = None \<and> tr_end_time t = None"
    by blast
  from b1 d1 d2 g1 g2 n r1 r2 r3 show ?thesis by blast
qed

subsection \<open>Iterating over events\<close>

text \<open>
  What \<open>events\<close> yields on a session with one stream and one cursor per CPU: the CPUs
  are visited in ascending index order; a CPU is visited when it is the target or the
  target is \<open>-1\<close>; its cursor is first moved to the first record at or after \<open>start\<close>; then
  the decoded events follow in on-disk order, up to the first record that does not decode
  or whose timestamp exceeds a positive \<open>end_t\<close>. Nothing is merged across CPUs.
\<close>

lemma read_data_Nil:
  "pending h c = [] \<Longrightarrow> tracecmd_read_data h c = (None, h)"
  by (simp add: tracecmd_read_data_def)

lemma read_data_Cons:
  assumes "pending h c = r # rs"
  shows "\<exists>h1. tracecmd_read_data h c = (Some r, h1) \<and> pending h1 c = rs
              \<and> ti_file h1 = ti_file h \<and> length (ti_cursors h1) = length (ti_cursors h)"
proof -
  from assms have c: "c < length (cf_streams (ti_file h))" "c < length (ti_cursors h)"
    by (auto simp: pending_def split: if_splits)
  with assms have d: "drop (ti_cursors h ! c) (cf_streams (ti_file h) ! c) = r # rs"
    by (simp add: pending_def)
  have "drop (Suc (ti_cursors h ! c)) (cf_streams (ti_file h) ! c) = rs"
    using d by (metis drop_Suc drop_tl list.sel(3) tl_drop)
  with c assms show ?thesis
    by (simp add: tracecmd_read_data_def pending_def)
qed

lemma record_to_event_ts:
  "record_to_event pe (Some r) = Some e \<Longrightarrow> ev_ts e = rec_ts r"
  by (auto simp: record_to_event_def Event_init_def Let_def pevent_record_ts_get_def
        split: if_splits option.splits)

lemma events_while_yields:
  "pending (tr_handle self) cpu = rs \<Longrightarrow>
   fst (events_while self cpu end_t) = yielded (tr_pevent self) end_t rs
   \<and> ti_file (tr_handle (snd (events_while self cpu end_t))) = ti_file (tr_handle self)
   \<and> length (ti_cursors (tr_handle (snd (events_while self cpu end_t))))
       = length (ti_cursors (tr_handle self))
   \<and> tr_cpus (snd (events_while self cpu end_t)) = tr_cpus self
   \<and> tr_pevent (snd (events_while self cpu end_t)) = tr_pevent self"
proof (induction rs arbitrary: self)
  case Nil
  then have "read_event self cpu = (None, self)"
    by (simp add: read_event_def read_data_Nil record_to_event_def)
  then have "events_while self cpu end_t = ([], self)"
    by (subst events_while.simps) (simp)
  then show ?case by (simp add: yielded_def)
next
  case (Cons r rs)
  from read_data_Cons [OF Cons.prems] obtain h1 where
    rd: "tracecmd_read_data (tr_handle self) cpu = (Some r, h1)"
    and p1: "pending h1 cpu = rs"
    and f1: "ti_file h1 = ti_file (tr_handle self)"
    and l1: "length (ti_cursors h1) = length (ti_cursors (tr_handle self))"
    by blast
  let ?self1 = "self\<lparr>tr_handle := h1\<rparr>"
  have re: "read_event self cpu = (record_to_event (tr_pevent self) (Some r), ?self1)"
    by (simp add: read_event_def rd)
  show ?case
  proof (cases "record_to_event (tr_pevent self) (Some r)")
    case None
    with re have "events_while self cpu end_t = ([], ?self1)"
      by (subst events_while.simps) (simp)
    with None show ?thesis
      by (simp add: yielded_def f1 l1)
  next
    case (Some e)
    have ts: "ev_ts e = rec_ts r" using Some by (rule record_to_event_ts)
    show ?thesis
    proof (cases "0 < end_t \<and> end_t < int (rec_ts r)")
      case True
      with re Some ts have "events_while self cpu end_t = ([], ?self1)"
        by (subst events_while.simps) (simp)
      with True Some show ?thesis
        by (simp add: yielded_def f1 l1)
    next
      case False
      have p: "pending (tr_handle ?self1) cpu = rs" using p1 by simp
      note ih = Cons.IH [OF p]
      from False re Some ts
      have unfold: "events_while self cpu end_t =
                     (e # fst (events_while ?self1 cpu end_t),
                      snd (events_while ?self1 cpu end_t))"
        by (subst events_while.simps) (auto simp: case_prod_beta)
      from ih False Some show ?thesis
        by (simp add: unfold yielded_def f1 l1)
    qed
  qed
qed


lemma set_cpu_pending:
  assumes "c < length (cf_streams (ti_file h))" and "c < length (ti_cursors h)"
  shows "pending (tracecmd_set_cpu_to_timestamp h c start) c
           = dropWhile (\<lambda>r. rec_ts r < start) (cf_streams (ti_file h) ! c)
       \<and> ti_file (tracecmd_set_cpu_to_timestamp h c start) = ti_file h
       \<and> length (ti_cursors (tracecmd_set_cpu_to_timestamp h c start)) = length (ti_cursors h)"
  using assms
  by (simp add: tracecmd_set_cpu_to_timestamp_def pending_def dropWhile_eq_drop)

lemma rewind_pending:
  assumes "session_ok self" and "c < tr_cpus self"
  shows "pending (tr_handle (rewind self (int c) start)) c
           = dropWhile (\<lambda>r. rec_ts r < start) (cf_streams (ti_file (tr_handle self)) ! c)
       \<and> ti_file (tr_handle (rewind self (int c) start)) = ti_file (tr_handle self)
       \<and> session_ok (rewind self (int c) start)
       \<and> tr_cpus (rewind self (int c) start) = tr_cpus self
       \<and> tr_pevent (rewind self (int c) start) = tr_pevent self"
proof -
  from assms have a: "c < length (cf_streams (ti_file (tr_handle self)))"
    and b: "c < length (ti_cursors (tr_handle self))"
    by (simp_all add: session_ok_def)
  from set_cpu_pending [OF a b, of start] assms show ?thesis
    by (simp add: rewind_def session_ok_def)
qed

lemma events_for_yields:
  assumes "session_ok self" and "\<forall>c \<in> set cs. c < tr_cpus self"
  shows "fst (events_for self target start end_t cs)
           = concat (map (\<lambda>c. if target = int c \<or> target = - 1
                                then yielded (tr_pevent self) end_t
                                       (dropWhile (\<lambda>r. rec_ts r < start)
                                          (cf_streams (ti_file (tr_handle self)) ! c))
                                else []) cs)"
  using assms
proof (induction cs arbitrary: self)
  case Nil
  then show ?case by simp
next
  case (Cons c cs)
  show ?case
  proof (cases "target = int c \<or> target = - 1")
    case False
    with Cons show ?thesis by simp
  next
    case True
    let ?s0 = "rewind self (int c) start"
    let ?s1 = "snd (events_while ?s0 c end_t)"
    from Cons.prems have c: "c < tr_cpus self" by simp
    note rw = rewind_pending [OF Cons.prems(1) c, of start]
    from rw have p: "pending (tr_handle ?s0) c
           = dropWhile (\<lambda>r. rec_ts r < start) (cf_streams (ti_file (tr_handle self)) ! c)"
      by blast
    note ew = events_while_yields [OF p, of end_t]
    from ew rw Cons.prems(1) have ok1: "session_ok ?s1"
      by (simp add: session_ok_def)
    from ew rw have same: "tr_cpus ?s1 = tr_cpus self" "tr_pevent ?s1 = tr_pevent self"
      "ti_file (tr_handle ?s1) = ti_file (tr_handle self)"
      by simp_all
    from Cons.prems(2) same have bound: "\<forall>c \<in> set cs. c < tr_cpus ?s1" by simp
    note ih = Cons.IH [OF ok1 bound, unfolded same]
    from ew rw have y: "fst (events_while ?s0 c end_t)
        = yielded (tr_pevent self) end_t
            (dropWhile (\<lambda>r. rec_ts r < start) (cf_streams (ti_file (tr_handle self)) ! c))"
      by simp
    from True ih y show ?thesis
      by (simp add: case_prod_beta)
  qed
qed

lemma events_yields:
  assumes "session_ok self"
  shows "fst (events self target start end_t)
           = concat (map (\<lambda>c. if target = int c \<or> target = - 1
                                then yielded (tr_pevent self) end_t
                                       (dropWhile (\<lambda>r. rec_ts r < start)
                                          (cf_streams (ti_file (tr_handle self)) ! c))
                                else []) [0..<tr_cpus self])"
  unfolding events_def using assms by (rule events_for_yields) simp

lemma yielded_within:
  assumes "e \<in> set (yielded pe end_t rs)" and "0 < end_t"
  shows "int (ev_ts e) \<le> end_t"
proof -
  from assms(1) obtain r where
    r: "r \<in> set (takeWhile (\<lambda>r. record_to_event pe (Some r) \<noteq> None
                        \<and> \<not> (0 < end_t \<and> end_t < int (rec_ts r))) rs)"
    and e: "e = the (record_to_event pe (Some r))"
    by (auto simp: yielded_def)
  from r have "record_to_event pe (Some r) \<noteq> None"
    and le: "\<not> (0 < end_t \<and> end_t < int (rec_ts r))"
    by (auto dest: set_takeWhileD)
  with e have "record_to_event pe (Some r) = Some e" by auto
  then have "ev_ts e = rec_ts r" by (rule record_to_event_ts)
  with le assms(2) show ?thesis by simp
qed

lemma events_within_end_time:
  assumes "session_ok self" and "e \<in> set (fst (events self target start end_t))"
    and "0 < end_t"
  shows "int (ev_ts e) \<le> end_t"
  using assms by (auto simp: events_yields split: if_splits dest: yielded_within)

lemma yielded_all_decodable:
  assumes "\<forall>r \<in> set rs. record_to_event pe (Some r) \<noteq> None"
  shows "yielded pe end_t rs
           = map (\<lambda>r. the (record_to_event pe (Some r)))
               (takeWhile (\<lambda>r. \<not> (0 < end_t \<and> end_t < int (rec_ts r))) rs)"
proof -
  have "takeWhile (\<lambda>r. record_to_event pe (Some r) \<noteq> None
                        \<and> \<not> (0 < end_t \<and> end_t < int (rec_ts r))) rs
        = takeWhile (\<lambda>r. \<not> (0 < end_t \<and> end_t < int (rec_ts r))) rs"
    using assms by (intro takeWhile_cong) auto
  then show ?thesis by (simp add: yielded_def)
qed

lemma Trace_init_session_ok:
  "Trace_init file = Inr t \<Longrightarrow> session_ok t"
  by (auto simp: Trace_init_def Let_def session_ok_def tracecmd_init_data_def tracecmd_cpus_def
        tracecmd_alloc_def split: if_splits prod.splits)

text \<open>
  C1. \<open>Trace.events\<close> evaluated on a capture with one CPU whose three records have
  timestamps 100, 200, 300 and type-ids 1, 99, 1, where the catalog knows type 1 only.
  With no bounds, the stream ends after the third record and no timestamp exceeds
  \<open>end_time\<close>, yet \<open>events\<close> yields the first event only: \<open>read_event\<close> returns \<open>None\<close> for
  the record of unknown type and the loop takes that for the end of the stream.
  \<open>Trace.records\<close>, the same loop on raw records, yields all three.
\<close>

theorem events_stop_at_unknown_type:
  "map rec_ts (cf_streams (ti_file (tr_handle (ex_trace ex_unknown_type))) ! 0) = [100, 200, 300]
   \<and> map rec_type (cf_streams (ti_file (tr_handle (ex_trace ex_unknown_type))) ! 0) = [1, 99, 1]
   \<and> map ev_ts (fst (events (ex_trace ex_unknown_type) (- 1) 0 0)) = [100]
   \<and> map rec_ts (fst (records (ex_trace ex_unknown_type) (- 1) 0 0)) = [100, 200, 300]"
  by code_simp

end
